theory Spec2Isabelle
  imports Main "HOL-Library.AList"
begin

section \<open>Data model of \<^verbatim>\<open>bot.py\<close>\<close>

text \<open>
  The bot keeps one JSON file per Telegram user, \<^verbatim>\<open>data/<user_id>.json\<close>, holding
  \<^verbatim>\<open>{"username": ..., "messages": [...]}\<close>. What \<^verbatim>\<open>json.load\<close> returns is an arbitrary
  JSON value, so the memory is modelled as a JSON value and every dynamic type error of
  the Python (subscripting a non-dict, \<^verbatim>\<open>.append\<close> on a non-list) is a branch of the model.
  A Python dict keeps insertion order; it is an association list here, and assigning to a
  key is \<open>AList.update\<close> (an existing key keeps its place, a new key goes last).
  A JSON float is carried by its literal, since nothing in the program computes with one.
\<close>

datatype json =
    JNull
  | JBool bool
  | JInt int
  | JFloat string
  | JStr string
  | JList "json list"
  | JDict "(string \<times> json) list"

text \<open>The exceptions the modelled code can raise.\<close>

datatype py_error =
    JSONDecodeError
  | KeyError string
  | TypeError
  | AttributeError

subsection \<open>\<^verbatim>\<open>update_message_history\<close> (lines 66-69)\<close>

text \<open>
  \<^verbatim>\<open>
  def update_message_history(messages: list, new_message: dict):
      messages.append(new_message)
      return messages[-20:] if len(messages) > 20 else messages
  \<close>
  On a list of more than 20 elements \<^verbatim>\<open>messages[-20:]\<close> is the list without its first
  \<^verbatim>\<open>len(messages) - 20\<close> elements.
\<close>

definition update_message_history :: "'a list \<Rightarrow> 'a \<Rightarrow> 'a list" where
  "update_message_history messages new_message =
     (let messages = messages @ [new_message]
      in if length messages > 20 then drop (length messages - 20) messages else messages)"

subsection \<open>Subscripting and item assignment on a loaded memory\<close>

text \<open>
  \<^verbatim>\<open>memory["messages"]\<close>: a dict without the key raises \<^verbatim>\<open>KeyError\<close>; a list, a string,
  a number, a boolean or \<^verbatim>\<open>None\<close> subscripted with a string raises \<^verbatim>\<open>TypeError\<close>.
\<close>

definition getitem :: "json \<Rightarrow> string \<Rightarrow> py_error + json" where
  "getitem memory key =
     (case memory of
        JDict items \<Rightarrow> (case map_of items key of Some v \<Rightarrow> Inr v | None \<Rightarrow> Inl (KeyError key))
      | _ \<Rightarrow> Inl TypeError)"

definition setitem :: "json \<Rightarrow> string \<Rightarrow> json \<Rightarrow> py_error + json" where
  "setitem memory key v =
     (case memory of
        JDict items \<Rightarrow> Inr (JDict (AList.update key v items))
      | _ \<Rightarrow> Inl TypeError)"

text \<open>
  The argument \<^verbatim>\<open>messages\<close> of \<^verbatim>\<open>update_message_history\<close> is whatever was stored under
  \<^verbatim>\<open>"messages"\<close>; only a list has \<^verbatim>\<open>.append\<close>, every other JSON value raises
  \<^verbatim>\<open>AttributeError\<close> at the first line of the function.
\<close>

definition as_list :: "json \<Rightarrow> py_error + json list" where
  "as_list messages = (case messages of JList ms \<Rightarrow> Inr ms | _ \<Rightarrow> Inl AttributeError)"

text \<open>
  The statement that occurs twice in \<^verbatim>\<open>on_message\<close> (lines 86-89 and 98-101):
  \<^verbatim>\<open>memory["messages"] = update_message_history(memory["messages"], new_message)\<close>.
  The right-hand side is evaluated first (subscript, then the call), then the assignment.
\<close>

definition append_to_memory :: "json \<Rightarrow> json \<Rightarrow> py_error + json" where
  "append_to_memory memory new_message =
     (case getitem memory ''messages'' of
        Inl e \<Rightarrow> Inl e
      | Inr messages \<Rightarrow>
          (case as_list messages of
             Inl e \<Rightarrow> Inl e
           | Inr ms \<Rightarrow>
               setitem memory ''messages'' (JList (update_message_history ms new_message))))"

text \<open>The dict literal \<^verbatim>\<open>{"from": who, "text": text}\<close>.\<close>

definition entry :: "string \<Rightarrow> string \<Rightarrow> json" where
  "entry who text = JDict [(''from'', JStr who), (''text'', JStr text)]"

subsection \<open>\<^verbatim>\<open>str(user_id)\<close> and the file name\<close>

text \<open>
  Python's \<^verbatim>\<open>str\<close> of an int: the decimal digits, most significant first, with a leading
  minus sign for a negative number. Python ints are unbounded, hence \<open>int\<close>.
\<close>

definition digit_char :: "nat \<Rightarrow> char" where
  "digit_char d = char_of (48 + d)"

fun str_nat :: "nat \<Rightarrow> string" where
  "str_nat n = (if n < 10 then [digit_char n] else str_nat (n div 10) @ [digit_char (n mod 10)])"

declare str_nat.simps [simp del]

definition str :: "int \<Rightarrow> string" where
  "str i = (if i < 0 then CHR ''-'' # str_nat (nat (- i)) else str_nat (nat i))"

text \<open>\<^verbatim>\<open>f"data/{user_id}.json"\<close> (lines 48, 63 and 112).\<close>

definition memory_file :: "int \<Rightarrow> string" where
  "memory_file user_id = ''data/'' @ str user_id @ ''.json''"

subsection \<open>The world: files and the trace of effects\<close>

text \<open>
  A file is modelled by what \<^verbatim>\<open>json.load\<close> makes of its text: the JSON value it parses
  to, or \<open>Garbage\<close> when the text is not JSON and \<^verbatim>\<open>json.load\<close> raises
  \<^verbatim>\<open>JSONDecodeError\<close>. \<^verbatim>\<open>json.dump\<close> of a value built from dicts with string keys, lists
  and strings writes a text that \<^verbatim>\<open>json.load\<close> reads back as the same value.
  The file system is a map from path to file. Opening an existing file for reading,
  writing a file, creating the directory and sending through Telegram are taken to
  succeed; the failures modelled are the ones the code itself decides on: a missing
  file, an unparsable file and the dynamic type errors on what was loaded.

  Every effect is also appended to a trace, so that the order of effects can be stated.
\<close>

datatype file_content = JsonText json | Garbage

datatype level = DEBUG | INFO | WARNING

datatype event =
    Log level string
  | MkDir string
  | OpenRead string
  | Write string json
  | Exists string
  | Unlink string
  | ReplyText string

record world =
  files :: "string \<Rightarrow> file_content option"
  trace :: "event list"

definition emit :: "event \<Rightarrow> world \<Rightarrow> world" where
  "emit e w = w\<lparr>trace := trace w @ [e]\<rparr>"

text \<open>
  The fields of the Telegram \<^verbatim>\<open>Update\<close> the handlers read:
  \<^verbatim>\<open>update.effective_user.id\<close>, \<^verbatim>\<open>update.effective_user.username\<close> (which may be \<^verbatim>\<open>None\<close>)
  and \<^verbatim>\<open>update.message.text\<close> (a string: the handler is registered for text messages).
\<close>

record update =
  effective_user_id :: int
  effective_user_username :: "string option"
  message_text :: string

subsection \<open>\<^verbatim>\<open>save_chat_memory\<close> (lines 61-64) and \<^verbatim>\<open>load_chat_memory\<close> (lines 43-59)\<close>

definition save_chat_memory :: "int \<Rightarrow> json \<Rightarrow> world \<Rightarrow> world" where
  "save_chat_memory user_id memory w =
     emit (Write (memory_file user_id) memory)
       (w\<lparr>files := (files w)(memory_file user_id \<mapsto> JsonText memory)\<rparr>)"

text \<open>
  Only \<^verbatim>\<open>FileNotFoundError\<close> is caught (line 52); a \<^verbatim>\<open>JSONDecodeError\<close> from
  \<^verbatim>\<open>json.load\<close> propagates to the caller.
\<close>

definition load_chat_memory :: "int \<Rightarrow> string \<Rightarrow> world \<Rightarrow> (py_error + json) \<times> world" where
  "load_chat_memory user_id username w =
     (let w1 = emit (OpenRead (memory_file user_id)) (emit (MkDir ''data'') w)
      in case files w1 (memory_file user_id) of
           Some (JsonText memory) \<Rightarrow> (Inr memory, w1)
         | Some Garbage \<Rightarrow> (Inl JSONDecodeError, w1)
         | None \<Rightarrow>
             (let memory = JDict [(''username'', JStr username), (''messages'', JList [])]
              in (Inr memory, save_chat_memory user_id memory w1)))"

subsection \<open>\<^verbatim>\<open>on_message\<close> (lines 71-102)\<close>

text \<open>
  \<^verbatim>\<open>ALLOWED_USERS\<close> is read from \<^verbatim>\<open>allowed_users.json\<close> at start-up and is a parameter
  here: the list of permitted user ids. \<^verbatim>\<open>update.effective_user.username or str(user_id)\<close>
  takes the id's digits when the username is \<^verbatim>\<open>None\<close> or empty.
\<close>

definition username_or_id :: "update \<Rightarrow> string" where
  "username_or_id update =
     (case effective_user_username update of
        Some name \<Rightarrow> if name = [] then str (effective_user_id update) else name
      | None \<Rightarrow> str (effective_user_id update))"

definition on_message :: "int list \<Rightarrow> update \<Rightarrow> world \<Rightarrow> (py_error + unit) \<times> world" where
  "on_message ALLOWED_USERS update w =
     (let user_id = effective_user_id update in
      if user_id \<notin> set ALLOWED_USERS then
        (Inr (), emit (Log WARNING (''Unauthorized message attempt from user ID: '' @ str user_id)) w)
      else
        let w1 = emit (Log DEBUG (''Received message from user ID: '' @ str user_id)) w in
        case load_chat_memory user_id (username_or_id update) w1 of
          (Inl e, w2) \<Rightarrow> (Inl e, w2)
        | (Inr memory, w2) \<Rightarrow>
            (case append_to_memory memory (entry ''user'' (message_text update)) of
               Inl e \<Rightarrow> (Inl e, w2)
             | Inr memory1 \<Rightarrow>
                 let reply = message_text update;
                     w3 = emit (ReplyText reply) w2
                 in (case append_to_memory memory1 (entry ''bot'' reply) of
                       Inl e \<Rightarrow> (Inl e, w3)
                     | Inr memory2 \<Rightarrow> (Inr (), save_chat_memory user_id memory2 w3))))"

subsection \<open>\<^verbatim>\<open>clear_data\<close> (lines 104-118)\<close>

definition clear_data :: "int list \<Rightarrow> update \<Rightarrow> world \<Rightarrow> (py_error + unit) \<times> world" where
  "clear_data ALLOWED_USERS update w =
     (let user_id = effective_user_id update in
      if user_id \<notin> set ALLOWED_USERS then
        (Inr (), emit (Log WARNING (''Unauthorized clear attempt from user ID: '' @ str user_id)) w)
      else
        let data_file = memory_file user_id;
            w1 = emit (Exists data_file) w
        in if files w1 data_file \<noteq> None then
             (Inr (),
              emit (ReplyText ''Your chat history has been cleared.'')
                (emit (Log INFO (''Deleted chat history for user ID: '' @ str user_id))
                  (emit (Unlink data_file) (w1\<lparr>files := (files w1)(data_file := None)\<rparr>))))
           else (Inr (), emit (ReplyText ''No chat history found.'') w1))"

section \<open>Notions used to state the properties\<close>

text \<open>The texts sent with \<^verbatim>\<open>reply_text\<close>, in order.\<close>

fun replies :: "event list \<Rightarrow> string list" where
  "replies [] = []"
| "replies (ev # evs) = (case ev of ReplyText t \<Rightarrow> t # replies evs | _ \<Rightarrow> replies evs)"

text \<open>The memory holds the entry \<open>e\<close> in its list of messages.\<close>

definition has_message :: "json \<Rightarrow> json \<Rightarrow> bool" where
  "has_message memory e =
     (case getitem memory ''messages'' of Inr (JList ms) \<Rightarrow> e \<in> set ms | _ \<Rightarrow> False)"

text \<open>
  In a trace, no reply is sent before a memory holding the entry \<open>e\<close> has been written
  to the file \<open>f\<close>: scanning from the start, such a write is met before any reply.
\<close>

fun saved_before_reply :: "string \<Rightarrow> json \<Rightarrow> event list \<Rightarrow> bool" where
  "saved_before_reply f e [] = True"
| "saved_before_reply f e (ev # evs) =
     (case ev of
        ReplyText t \<Rightarrow> False
      | Write g memory \<Rightarrow> (g = f \<and> has_message memory e) \<or> saved_before_reply f e evs
      | _ \<Rightarrow> saved_before_reply f e evs)"

text \<open>The writes of a trace, in order.\<close>

fun writes :: "event list \<Rightarrow> (string \<times> json) list" where
  "writes [] = []"
| "writes (ev # evs) = (case ev of Write g memory \<Rightarrow> (g, memory) # writes evs | _ \<Rightarrow> writes evs)"

text \<open>
  A memory on which both appends of \<open>on_message\<close> go through: a dict that holds a list
  under \<^verbatim>\<open>"messages"\<close>.
\<close>

definition well_formed_memory :: "json \<Rightarrow> bool" where
  "well_formed_memory memory =
     (case memory of
        JDict items \<Rightarrow> (case map_of items ''messages'' of Some (JList ms) \<Rightarrow> True | _ \<Rightarrow> False)
      | _ \<Rightarrow> False)"

text \<open>
  The number a string of decimal digits denotes; it reads back what \<open>str_nat\<close> prints,
  which is how distinct user ids are shown to have distinct files.
\<close>

definition digits_value :: "string \<Rightarrow> nat" where
  "digits_value s = foldl (\<lambda>a c. 10 * a + (of_char c - 48)) 0 s"

text \<open>Concrete inputs: user 42 (username alice) sending the text hello, and three worlds.\<close>

definition hello_from_42 :: update where
  "hello_from_42 =
     \<lparr>effective_user_id = 42, effective_user_username = Some ''alice'', message_text = ''hello''\<rparr>"

definition empty_world :: world where
  "empty_world = \<lparr>files = Map.empty, trace = []\<rparr>"

definition alice_memory :: json where
  "alice_memory = JDict [(''username'', JStr ''alice''), (''messages'', JList [])]"

definition alice_world :: world where
  "alice_world = \<lparr>files = [''data/42.json'' \<mapsto> JsonText alice_memory], trace = []\<rparr>"

definition garbage_world :: world where
  "garbage_world = \<lparr>files = [''data/42.json'' \<mapsto> Garbage], trace = []\<rparr>"

section \<open>Basic facts about the operations\<close>

lemma files_emit [simp]: "files (emit e w) = files w"
  by (simp add: emit_def)

lemma trace_emit [simp]: "trace (emit e w) = trace w @ [e]"
  by (simp add: emit_def)

lemma replies_append [simp]: "replies (xs @ ys) = replies xs @ replies ys"
  by (induction xs) (auto split: event.splits)

lemma writes_append [simp]: "writes (xs @ ys) = writes xs @ writes ys"
  by (induction xs) (auto split: event.splits)

lemma memory_file_42: "memory_file 42 = ''data/42.json''"
  by code_simp

lemma str_42: "str 42 = ''42''"
  by code_simp

subsection \<open>The three cases of \<open>load_chat_memory\<close>\<close>

lemma load_chat_memory_present:
  "files w (memory_file user_id) = Some (JsonText memory) \<Longrightarrow>
     load_chat_memory user_id hint w =
       (Inr memory, w\<lparr>trace := trace w @ [MkDir ''data'', OpenRead (memory_file user_id)]\<rparr>)"
  by (simp add: load_chat_memory_def emit_def)

lemma load_chat_memory_garbage:
  "files w (memory_file user_id) = Some Garbage \<Longrightarrow>
     load_chat_memory user_id hint w =
       (Inl JSONDecodeError, w\<lparr>trace := trace w @ [MkDir ''data'', OpenRead (memory_file user_id)]\<rparr>)"
  by (simp add: load_chat_memory_def emit_def)

lemma load_chat_memory_absent:
  "files w (memory_file user_id) = None \<Longrightarrow>
     load_chat_memory user_id hint w =
       (Inr (JDict [(''username'', JStr hint), (''messages'', JList [])]),
        w\<lparr>files := (files w)(memory_file user_id \<mapsto>
                 JsonText (JDict [(''username'', JStr hint), (''messages'', JList [])])),
          trace := trace w @ [MkDir ''data'', OpenRead (memory_file user_id),
                 Write (memory_file user_id)
                   (JDict [(''username'', JStr hint), (''messages'', JList [])])]\<rparr>)"
  by (simp add: load_chat_memory_def save_chat_memory_def emit_def Let_def)

lemma load_chat_memory_cases:
  obtains (present) memory where "files w (memory_file user_id) = Some (JsonText memory)"
  | (garbage) "files w (memory_file user_id) = Some Garbage"
  | (absent) "files w (memory_file user_id) = None"
  by (cases "files w (memory_file user_id)") (auto intro: file_content.exhaust)

lemma files_load_again:
  "files (snd (load_chat_memory user_id hint' (snd (load_chat_memory user_id hint w))))
     = files (snd (load_chat_memory user_id hint w))"
proof (cases w user_id rule: load_chat_memory_cases)
  case (present memory)
  then show ?thesis by (simp add: load_chat_memory_present)
next
  case garbage
  then show ?thesis by (simp add: load_chat_memory_garbage)
next
  case absent
  then show ?thesis by (simp add: load_chat_memory_absent load_chat_memory_present)
qed

lemma result_load_again:
  "fst (load_chat_memory user_id hint' (snd (load_chat_memory user_id hint w)))
     = fst (load_chat_memory user_id hint w)"
proof (cases w user_id rule: load_chat_memory_cases)
  case (present memory)
  then show ?thesis by (simp add: load_chat_memory_present)
next
  case garbage
  then show ?thesis by (simp add: load_chat_memory_garbage)
next
  case absent
  then show ?thesis by (simp add: load_chat_memory_absent load_chat_memory_present)
qed

subsection \<open>Appending to a well-formed memory\<close>

lemma append_to_memory_dict:
  "map_of items ''messages'' = Some (JList ms) \<Longrightarrow>
     append_to_memory (JDict items) e =
       Inr (JDict (AList.update ''messages'' (JList (update_message_history ms e)) items))"
  by (simp add: append_to_memory_def getitem_def as_list_def setitem_def)

lemma append_to_memory_twice:
  "map_of items ''messages'' = Some (JList ms) \<Longrightarrow>
     append_to_memory
       (JDict (AList.update ''messages'' (JList (update_message_history ms e)) items)) e' =
       Inr (JDict (AList.update ''messages''
              (JList (update_message_history (update_message_history ms e) e')) items))"
  by (simp add: append_to_memory_dict update_conv')

lemma append_to_memory_again:
  "append_to_memory memory e = Inr memory1 \<Longrightarrow>
     \<exists>memory2. append_to_memory memory1 e' = Inr memory2"
  by (auto simp: append_to_memory_def getitem_def as_list_def setitem_def update_conv'
      split: json.splits option.splits sum.splits)

subsection \<open>Distinct user ids have distinct files\<close>

lemma of_char_digit_char: "d < 10 \<Longrightarrow> of_char (digit_char d) = 48 + d"
  by (simp add: digit_char_def)

lemma digits_value_snoc: "digits_value (s @ [c]) = 10 * digits_value s + (of_char c - 48)"
  by (simp add: digits_value_def)

lemma digits_value_str_nat: "digits_value (str_nat n) = n"
proof (induction n rule: str_nat.induct)
  case (1 n)
  show ?case
  proof (cases "n < 10")
    case True
    then show ?thesis
      by (subst str_nat.simps) (simp add: digits_value_def of_char_digit_char)
  next
    case False
    then have "digits_value (str_nat n) = 10 * (n div 10) + n mod 10"
      by (subst str_nat.simps) (simp add: digits_value_snoc "1.IH" of_char_digit_char)
    then show ?thesis by simp
  qed
qed

lemma digit_char_not_minus: "d < 10 \<Longrightarrow> digit_char d \<noteq> CHR ''-''"
proof
  assume "d < 10" and "digit_char d = CHR ''-''"
  then have "(of_char (digit_char d) :: nat) = of_char (CHR ''-'')" by simp
  with \<open>d < 10\<close> show False by (simp add: of_char_digit_char)
qed

lemma minus_notin_str_nat: "CHR ''-'' \<notin> set (str_nat n)"
proof (induction n rule: str_nat.induct)
  case (1 n)
  show ?case
  proof (cases "n < 10")
    case True
    then show ?thesis
      using digit_char_not_minus [of n] by (subst str_nat.simps) auto
  next
    case False
    have "n mod 10 < 10" by simp
    then have "digit_char (n mod 10) \<noteq> CHR ''-''" by (rule digit_char_not_minus)
    with False "1.IH" show ?thesis
      by (subst str_nat.simps) auto
  qed
qed

lemma str_nat_inject: "str_nat m = str_nat n \<Longrightarrow> m = n"
  by (metis digits_value_str_nat)

lemma str_inject: "str a = str b \<Longrightarrow> a = b"
proof -
  assume eq: "str a = str b"
  have no_minus: "\<And>n s. str_nat n \<noteq> CHR ''-'' # s"
    using minus_notin_str_nat by (metis list.set_intros(1))
  show "a = b"
  proof (cases "a < 0"; cases "b < 0")
    assume "a < 0" "b < 0"
    with eq have "nat (- a) = nat (- b)" by (simp add: str_def str_nat_inject)
    with \<open>a < 0\<close> \<open>b < 0\<close> show ?thesis by simp
  next
    assume "a < 0" "\<not> b < 0"
    with eq no_minus show ?thesis by (simp add: str_def) metis
  next
    assume "\<not> a < 0" "b < 0"
    with eq no_minus show ?thesis by (simp add: str_def)
  next
    assume "\<not> a < 0" "\<not> b < 0"
    with eq have "nat a = nat b" by (simp add: str_def str_nat_inject)
    with \<open>\<not> a < 0\<close> \<open>\<not> b < 0\<close> show ?thesis by simp
  qed
qed

lemma memory_file_inject: "memory_file a = memory_file b \<Longrightarrow> a = b"
  by (simp add: memory_file_def str_inject)

section \<open>The history bound\<close>

lemma update_message_history_drop:
  "update_message_history h e = drop (Suc (length h) - 20) (h @ [e])"
  by (simp add: update_message_history_def Let_def)

lemma length_update_message_history:
  "length (update_message_history h e) = min (Suc (length h)) 20"
  by (simp add: update_message_history_drop)

lemma foldl_update_message_history:
  "foldl update_message_history h es =
     (if es = [] then h else drop (length h + length es - 20) (h @ es))"
proof (induction es arbitrary: h)
  case Nil
  show ?case by simp
next
  case (Cons e es)
  show ?case
  proof (cases "es = []")
    case True
    then show ?thesis by (simp add: update_message_history_drop)
  next
    case False
    have "foldl update_message_history h (e # es) =
            drop (length (update_message_history h e) + length es - 20)
              (update_message_history h e @ es)"
      using False by (simp add: Cons.IH)
    also have "\<dots> = drop (min (Suc (length h)) 20 + length es - 20)
              (drop (Suc (length h) - 20) (h @ [e]) @ es)"
      unfolding length_update_message_history
      by (simp only: update_message_history_drop)
    also have "\<dots> = drop (length h + length (e # es) - 20) (h @ e # es)"
    proof (cases "Suc (length h) \<le> 20")
      case True
      then show ?thesis by simp
    next
      case False
      then have "drop (Suc (length h) - 20) (h @ [e]) @ es
                 = drop (Suc (length h) - 20) (h @ e # es)"
        by simp
      with False show ?thesis by (simp add: min_def add.commute)
    qed
    finally show ?thesis using False by simp
  qed
qed

text \<open>
  Claim C1. Whatever the starting history \<open>h\<close> (of any length), after each of a sequence
  of appends with \<open>update_message_history\<close> the history has at most 20 entries: the
  sequence ending in the append of \<open>e\<close> stands for every non-empty prefix of a run.
  Starting from the empty history, the \<open>N\<close> appends \<open>es\<close> (\<open>N \<ge> 0\<close>) leave exactly the
  last \<open>min N 20\<close> appended entries, in the order they were appended, so the oldest
  entries are the ones dropped.
\<close>

theorem update_message_history_bound:
  "length (foldl update_message_history h (es @ [e])) \<le> 20
   \<and> foldl update_message_history [] es = drop (length es - min (length es) 20) es
   \<and> length (foldl update_message_history [] es) = min (length es) 20"
proof -
  have "length (foldl update_message_history h (es @ [e])) \<le> 20"
    by (simp add: length_update_message_history)
  moreover have "foldl update_message_history [] es = drop (length es - min (length es) 20) es"
    by (simp add: foldl_update_message_history min_def)
  moreover have "length (foldl update_message_history [] es) = min (length es) 20"
    by (simp add: foldl_update_message_history min_def)
  ultimately show ?thesis by simp
qed

section \<open>Unauthorized senders\<close>

text \<open>
  Claim C5. For a message and for a clear command alike, when the sender's id is not in
  \<open>ALLOWED_USERS\<close> the handler returns normally (no exception) and the world it leaves
  differs from the one it found only by one warning appended to the trace: no file is
  read, written or deleted (so neither \<open>load_chat_memory\<close> nor \<open>save_chat_memory\<close> ran,
  each of which leaves an event), and no reply is sent.
\<close>

theorem unauthorized_dropped:
  "effective_user_id update \<notin> set ALLOWED_USERS \<Longrightarrow>
     on_message ALLOWED_USERS update w =
       (Inr (), w\<lparr>trace := trace w @
          [Log WARNING (''Unauthorized message attempt from user ID: ''
             @ str (effective_user_id update))]\<rparr>)
   \<and> clear_data ALLOWED_USERS update w =
       (Inr (), w\<lparr>trace := trace w @
          [Log WARNING (''Unauthorized clear attempt from user ID: ''
             @ str (effective_user_id update))]\<rparr>)"
  by (simp add: on_message_def clear_data_def emit_def)

theorem unauthorized_dropped_witness:
  "fst (on_message [7] hello_from_42 alice_world) = Inr ()
   \<and> files (snd (on_message [7] hello_from_42 alice_world)) = files alice_world
   \<and> trace (snd (on_message [7] hello_from_42 alice_world))
       = [Log WARNING ''Unauthorized message attempt from user ID: 42'']
   \<and> fst (clear_data [7] hello_from_42 alice_world) = Inr ()
   \<and> files (snd (clear_data [7] hello_from_42 alice_world)) = files alice_world
   \<and> trace (snd (clear_data [7] hello_from_42 alice_world))
       = [Log WARNING ''Unauthorized clear attempt from user ID: 42'']"
  using unauthorized_dropped [of hello_from_42 "[7]" alice_world]
  by (simp add: hello_from_42_def alice_world_def str_42)

section \<open>Load or create\<close>

text \<open>
  Claim C4. When the user's file holds a record, \<open>load_chat_memory\<close> returns that record
  as it is and writes nothing. When there is no file, it builds the record with the
  given username and an empty list of messages, writes it to the user's file at once
  and returns it. In every case a further load, whatever username it is given, leaves
  all files as they are, so the stored username is never replaced.
\<close>

theorem load_or_create:
  "(files w (memory_file user_id) = Some (JsonText memory) \<longrightarrow>
      fst (load_chat_memory user_id hint w) = Inr memory
      \<and> files (snd (load_chat_memory user_id hint w)) = files w
      \<and> writes (trace (snd (load_chat_memory user_id hint w))) = writes (trace w))
   \<and> (files w (memory_file user_id) = None \<longrightarrow>
      fst (load_chat_memory user_id hint w)
        = Inr (JDict [(''username'', JStr hint), (''messages'', JList [])])
      \<and> files (snd (load_chat_memory user_id hint w))
        = (files w)(memory_file user_id \<mapsto>
             JsonText (JDict [(''username'', JStr hint), (''messages'', JList [])]))
      \<and> trace (snd (load_chat_memory user_id hint w))
        = trace w @ [MkDir ''data'', OpenRead (memory_file user_id),
            Write (memory_file user_id)
              (JDict [(''username'', JStr hint), (''messages'', JList [])])])
   \<and> files (snd (load_chat_memory user_id hint' (snd (load_chat_memory user_id hint w))))
        = files (snd (load_chat_memory user_id hint w))"
proof -
  have "files w (memory_file user_id) = Some (JsonText memory) \<longrightarrow>
      fst (load_chat_memory user_id hint w) = Inr memory
      \<and> files (snd (load_chat_memory user_id hint w)) = files w
      \<and> writes (trace (snd (load_chat_memory user_id hint w))) = writes (trace w)"
    by (simp add: load_chat_memory_present)
  moreover have "files w (memory_file user_id) = None \<longrightarrow>
      fst (load_chat_memory user_id hint w)
        = Inr (JDict [(''username'', JStr hint), (''messages'', JList [])])
      \<and> files (snd (load_chat_memory user_id hint w))
        = (files w)(memory_file user_id \<mapsto>
             JsonText (JDict [(''username'', JStr hint), (''messages'', JList [])]))
      \<and> trace (snd (load_chat_memory user_id hint w))
        = trace w @ [MkDir ''data'', OpenRead (memory_file user_id),
            Write (memory_file user_id)
              (JDict [(''username'', JStr hint), (''messages'', JList [])])]"
    by (simp add: load_chat_memory_absent)
  ultimately show ?thesis
    using files_load_again [of user_id hint' hint w] by blast
qed

theorem load_or_create_witness:
  "files alice_world ''data/42.json'' = Some (JsonText alice_memory)
   \<and> fst (load_chat_memory 42 ''bob'' alice_world) = Inr alice_memory
   \<and> files (snd (load_chat_memory 42 ''bob'' alice_world)) = files alice_world
   \<and> files empty_world ''data/42.json'' = None
   \<and> fst (load_chat_memory 42 ''alice'' empty_world) = Inr alice_memory
   \<and> files (snd (load_chat_memory 42 ''alice'' empty_world)) ''data/42.json''
       = Some (JsonText alice_memory)
   \<and> files (snd (load_chat_memory 42 ''bob'' (snd (load_chat_memory 42 ''alice'' empty_world))))
         ''data/42.json''
       = Some (JsonText alice_memory)"
  using load_or_create [of alice_world 42 alice_memory "''bob''" "''bob''"]
        load_or_create [of empty_world 42 alice_memory "''alice''" "''bob''"]
  by (simp add: memory_file_42 alice_world_def empty_world_def alice_memory_def)

section \<open>Clearing\<close>

lemma clear_data_present:
  "effective_user_id update \<in> set ALLOWED_USERS \<Longrightarrow>
   files w (memory_file (effective_user_id update)) \<noteq> None \<Longrightarrow>
     clear_data ALLOWED_USERS update w =
       (Inr (), w\<lparr>files := (files w)(memory_file (effective_user_id update) := None),
                   trace := trace w @
                     [Exists (memory_file (effective_user_id update)),
                      Unlink (memory_file (effective_user_id update)),
                      Log INFO (''Deleted chat history for user ID: ''
                        @ str (effective_user_id update)),
                      ReplyText ''Your chat history has been cleared.'']\<rparr>)"
  by (simp add: clear_data_def emit_def Let_def)

lemma clear_data_absent:
  "effective_user_id update \<in> set ALLOWED_USERS \<Longrightarrow>
   files w (memory_file (effective_user_id update)) = None \<Longrightarrow>
     clear_data ALLOWED_USERS update w =
       (Inr (), w\<lparr>trace := trace w @
                     [Exists (memory_file (effective_user_id update)),
                      ReplyText ''No chat history found.'']\<rparr>)"
  by (simp add: clear_data_def emit_def Let_def)

text \<open>
  Claim C6. For a permitted sender (the part of \<open>clear_data\<close> after the gate, lines
  112-118): when the user's file exists, one clear returns normally, removes exactly that
  file and replies that the history has been cleared, and a clear following it at once
  returns normally, changes no file and replies that no history was found. When the
  user's file does not exist, a clear returns normally, changes no file and replies that
  no history was found.
\<close>

theorem clear_data_idempotent:
  "effective_user_id update \<in> set ALLOWED_USERS \<Longrightarrow>
     (files w (memory_file (effective_user_id update)) \<noteq> None \<longrightarrow>
        fst (clear_data ALLOWED_USERS update w) = Inr ()
        \<and> files (snd (clear_data ALLOWED_USERS update w))
            = (files w)(memory_file (effective_user_id update) := None)
        \<and> replies (trace (snd (clear_data ALLOWED_USERS update w)))
            = replies (trace w) @ [''Your chat history has been cleared.'']
        \<and> fst (clear_data ALLOWED_USERS update (snd (clear_data ALLOWED_USERS update w))) = Inr ()
        \<and> files (snd (clear_data ALLOWED_USERS update (snd (clear_data ALLOWED_USERS update w))))
            = files (snd (clear_data ALLOWED_USERS update w))
        \<and> replies (trace (snd (clear_data ALLOWED_USERS update
              (snd (clear_data ALLOWED_USERS update w)))))
            = replies (trace w)
                @ [''Your chat history has been cleared.'', ''No chat history found.''])
   \<and> (files w (memory_file (effective_user_id update)) = None \<longrightarrow>
        fst (clear_data ALLOWED_USERS update w) = Inr ()
        \<and> files (snd (clear_data ALLOWED_USERS update w)) = files w
        \<and> replies (trace (snd (clear_data ALLOWED_USERS update w)))
            = replies (trace w) @ [''No chat history found.''])"
proof (intro conjI impI)
  assume a: "effective_user_id update \<in> set ALLOWED_USERS"
    and p: "files w (memory_file (effective_user_id update)) \<noteq> None"
  let ?w1 = "snd (clear_data ALLOWED_USERS update w)"
  have gone: "files ?w1 (memory_file (effective_user_id update)) = None"
    using a p by (simp add: clear_data_present)
  show "fst (clear_data ALLOWED_USERS update w) = Inr ()"
    using a p by (simp add: clear_data_present)
  show "files ?w1 = (files w)(memory_file (effective_user_id update) := None)"
    using a p by (simp add: clear_data_present)
  show r1: "replies (trace ?w1) = replies (trace w) @ [''Your chat history has been cleared.'']"
    using a p by (simp add: clear_data_present)
  show "fst (clear_data ALLOWED_USERS update ?w1) = Inr ()"
    using a gone by (simp add: clear_data_absent)
  show "files (snd (clear_data ALLOWED_USERS update ?w1)) = files ?w1"
    using a gone by (simp add: clear_data_absent)
  show "replies (trace (snd (clear_data ALLOWED_USERS update ?w1)))
          = replies (trace w) @ [''Your chat history has been cleared.'', ''No chat history found.'']"
    unfolding clear_data_absent [OF a gone] by (simp add: r1)
next
  assume a: "effective_user_id update \<in> set ALLOWED_USERS"
    and n: "files w (memory_file (effective_user_id update)) = None"
  show "fst (clear_data ALLOWED_USERS update w) = Inr ()"
    using a n by (simp add: clear_data_absent)
  show "files (snd (clear_data ALLOWED_USERS update w)) = files w"
    using a n by (simp add: clear_data_absent)
  show "replies (trace (snd (clear_data ALLOWED_USERS update w)))
          = replies (trace w) @ [''No chat history found.'']"
    using a n by (simp add: clear_data_absent)
qed

theorem clear_data_idempotent_witness:
  "42 \<in> set [42::int]
   \<and> files alice_world ''data/42.json'' \<noteq> None
   \<and> files (snd (clear_data [42] hello_from_42 alice_world)) ''data/42.json'' = None
   \<and> replies (trace (snd (clear_data [42] hello_from_42
         (snd (clear_data [42] hello_from_42 alice_world)))))
       = [''Your chat history has been cleared.'', ''No chat history found.'']
   \<and> files empty_world ''data/42.json'' = None
   \<and> fst (clear_data [42] hello_from_42 empty_world) = Inr ()
   \<and> replies (trace (snd (clear_data [42] hello_from_42 empty_world)))
       = [''No chat history found.'']"
  using clear_data_idempotent [of hello_from_42 "[42]" alice_world]
        clear_data_idempotent [of hello_from_42 "[42]" empty_world]
  by (simp add: hello_from_42_def alice_world_def empty_world_def memory_file_42)

section \<open>The runs of \<open>on_message\<close> for a permitted sender\<close>

lemma replies_load_chat_memory:
  "replies (trace (snd (load_chat_memory user_id hint w))) = replies (trace w)"
  by (cases w user_id rule: load_chat_memory_cases)
     (simp_all add: load_chat_memory_present load_chat_memory_garbage load_chat_memory_absent)

lemma on_message_load_error:
  assumes "effective_user_id update \<in> set ALLOWED_USERS"
    and "load_chat_memory (effective_user_id update) (username_or_id update)
           (emit (Log DEBUG (''Received message from user ID: '' @ str (effective_user_id update))) w)
         = (Inl e, w2)"
  shows "on_message ALLOWED_USERS update w = (Inl e, w2)"
  using assms by (simp add: on_message_def Let_def)

lemma on_message_append_error:
  assumes "effective_user_id update \<in> set ALLOWED_USERS"
    and "load_chat_memory (effective_user_id update) (username_or_id update)
           (emit (Log DEBUG (''Received message from user ID: '' @ str (effective_user_id update))) w)
         = (Inr memory, w2)"
    and "append_to_memory memory (entry ''user'' (message_text update)) = Inl e"
  shows "on_message ALLOWED_USERS update w = (Inl e, w2)"
  using assms by (simp add: on_message_def Let_def)

lemma on_message_success:
  assumes "effective_user_id update \<in> set ALLOWED_USERS"
    and "load_chat_memory (effective_user_id update) (username_or_id update)
           (emit (Log DEBUG (''Received message from user ID: '' @ str (effective_user_id update))) w)
         = (Inr memory, w2)"
    and "append_to_memory memory (entry ''user'' (message_text update)) = Inr memory1"
    and "append_to_memory memory1 (entry ''bot'' (message_text update)) = Inr memory2"
  shows "on_message ALLOWED_USERS update w =
           (Inr (), save_chat_memory (effective_user_id update) memory2
                      (emit (ReplyText (message_text update)) w2))"
  using assms by (simp add: on_message_def Let_def)

lemma on_message_replies:
  assumes a: "effective_user_id update \<in> set ALLOWED_USERS"
  shows "replies (trace (snd (on_message ALLOWED_USERS update w)))
           = replies (trace w)
               @ (if isl (fst (on_message ALLOWED_USERS update w)) then [] else [message_text update])"
proof -
  let ?w1 = "emit (Log DEBUG (''Received message from user ID: '' @ str (effective_user_id update))) w"
  let ?l = "load_chat_memory (effective_user_id update) (username_or_id update) ?w1"
  have r2: "replies (trace (snd ?l)) = replies (trace w)"
    by (simp add: replies_load_chat_memory)
  show ?thesis
  proof (cases "fst ?l")
    case (Inl e)
    then have "?l = (Inl e, snd ?l)" by (metis prod.collapse)
    from on_message_load_error [OF a this] r2 show ?thesis by simp
  next
    case (Inr memory)
    then have l: "?l = (Inr memory, snd ?l)" by (metis prod.collapse)
    show ?thesis
    proof (cases "append_to_memory memory (entry ''user'' (message_text update))")
      case (Inl e)
      from on_message_append_error [OF a l this] r2 show ?thesis by simp
    next
      case first: (Inr memory1)
      from append_to_memory_again [OF this]
      obtain memory2 where "append_to_memory memory1 (entry ''bot'' (message_text update)) = Inr memory2"
        by blast
      from on_message_success [OF a l first this] r2 show ?thesis
        by (simp add: save_chat_memory_def)
    qed
  qed
qed

lemma on_message_present:
  assumes a: "effective_user_id update \<in> set ALLOWED_USERS"
    and f: "files w (memory_file (effective_user_id update)) = Some (JsonText (JDict items))"
    and m: "map_of items ''messages'' = Some (JList ms)"
  shows "on_message ALLOWED_USERS update w =
     (Inr (),
      w\<lparr>files := (files w)(memory_file (effective_user_id update) \<mapsto>
            JsonText (JDict (AList.update ''messages''
              (JList (update_message_history
                 (update_message_history ms (entry ''user'' (message_text update)))
                 (entry ''bot'' (message_text update)))) items))),
        trace := trace w @
          [Log DEBUG (''Received message from user ID: '' @ str (effective_user_id update)),
           MkDir ''data'',
           OpenRead (memory_file (effective_user_id update)),
           ReplyText (message_text update),
           Write (memory_file (effective_user_id update))
             (JDict (AList.update ''messages''
               (JList (update_message_history
                  (update_message_history ms (entry ''user'' (message_text update)))
                  (entry ''bot'' (message_text update)))) items))]\<rparr>)"
proof -
  let ?w1 = "emit (Log DEBUG (''Received message from user ID: '' @ str (effective_user_id update))) w"
  have "files ?w1 (memory_file (effective_user_id update)) = Some (JsonText (JDict items))"
    using f by simp
  note l = load_chat_memory_present [OF this, of "username_or_id update"]
  show ?thesis
    unfolding on_message_success [OF a l append_to_memory_dict [OF m] append_to_memory_twice [OF m]]
    by (simp add: save_chat_memory_def emit_def)
qed

lemma on_message_absent:
  assumes a: "effective_user_id update \<in> set ALLOWED_USERS"
    and f: "files w (memory_file (effective_user_id update)) = None"
  shows "on_message ALLOWED_USERS update w =
     (Inr (),
      w\<lparr>files := (files w)(memory_file (effective_user_id update) \<mapsto>
            JsonText (JDict [(''username'', JStr (username_or_id update)),
              (''messages'', JList [entry ''user'' (message_text update),
                                    entry ''bot'' (message_text update)])])),
        trace := trace w @
          [Log DEBUG (''Received message from user ID: '' @ str (effective_user_id update)),
           MkDir ''data'',
           OpenRead (memory_file (effective_user_id update)),
           Write (memory_file (effective_user_id update))
             (JDict [(''username'', JStr (username_or_id update)), (''messages'', JList [])]),
           ReplyText (message_text update),
           Write (memory_file (effective_user_id update))
             (JDict [(''username'', JStr (username_or_id update)),
               (''messages'', JList [entry ''user'' (message_text update),
                                     entry ''bot'' (message_text update)])])]\<rparr>)"
proof -
  let ?w1 = "emit (Log DEBUG (''Received message from user ID: '' @ str (effective_user_id update))) w"
  have "files ?w1 (memory_file (effective_user_id update)) = None"
    using f by simp
  note l = load_chat_memory_absent [OF this, of "username_or_id update"]
  have m: "map_of [(''username'', JStr (username_or_id update)), (''messages'', JList [])] ''messages''
             = Some (JList [])"
    by simp
  show ?thesis
    unfolding on_message_success [OF a l append_to_memory_dict [OF m] append_to_memory_twice [OF m]]
    by (simp add: save_chat_memory_def emit_def update_message_history_def)
qed

lemma on_message_garbage:
  assumes a: "effective_user_id update \<in> set ALLOWED_USERS"
    and f: "files w (memory_file (effective_user_id update)) = Some Garbage"
  shows "on_message ALLOWED_USERS update w =
     (Inl JSONDecodeError,
      w\<lparr>trace := trace w @
          [Log DEBUG (''Received message from user ID: '' @ str (effective_user_id update)),
           MkDir ''data'',
           OpenRead (memory_file (effective_user_id update))]\<rparr>)"
proof -
  let ?w1 = "emit (Log DEBUG (''Received message from user ID: '' @ str (effective_user_id update))) w"
  have "files ?w1 (memory_file (effective_user_id update)) = Some Garbage"
    using f by simp
  note l = load_chat_memory_garbage [OF this, of "username_or_id update"]
  show ?thesis
    unfolding on_message_load_error [OF a l] by (simp add: emit_def)
qed

section \<open>Loading twice\<close>

text \<open>
  Claim C7. Two calls of \<open>load_chat_memory\<close> in succession for the same user and the
  same username, with nothing done to the files in between, have the same outcome, and
  the second call leaves the files as the first left them. Unless the user's file is
  unparsable, that outcome is a returned record (not an exception), so both calls
  return records of identical content.
\<close>

theorem load_chat_memory_twice:
  "fst (load_chat_memory user_id hint (snd (load_chat_memory user_id hint w)))
     = fst (load_chat_memory user_id hint w)
   \<and> files (snd (load_chat_memory user_id hint (snd (load_chat_memory user_id hint w))))
     = files (snd (load_chat_memory user_id hint w))
   \<and> (files w (memory_file user_id) \<noteq> Some Garbage \<longrightarrow>
        \<not> isl (fst (load_chat_memory user_id hint w)))"
proof -
  have "files w (memory_file user_id) \<noteq> Some Garbage \<longrightarrow>
        \<not> isl (fst (load_chat_memory user_id hint w))"
    by (cases w user_id rule: load_chat_memory_cases)
       (simp_all add: load_chat_memory_present load_chat_memory_absent)
  then show ?thesis
    using result_load_again [of user_id hint hint w] files_load_again [of user_id hint hint w]
    by blast
qed

theorem load_chat_memory_twice_witness:
  "files empty_world ''data/42.json'' \<noteq> Some Garbage
   \<and> fst (load_chat_memory 42 ''alice'' empty_world) = Inr alice_memory
   \<and> fst (load_chat_memory 42 ''alice'' (snd (load_chat_memory 42 ''alice'' empty_world)))
       = Inr alice_memory"
  using load_chat_memory_twice [of 42 "''alice''" empty_world]
        load_chat_memory_absent [of empty_world 42 "''alice''"]
  by (simp add: memory_file_42 empty_world_def alice_memory_def)

section \<open>The echo\<close>

lemma well_formed_memory_iff:
  "well_formed_memory memory
     = (\<exists>items ms. memory = JDict items \<and> map_of items ''messages'' = Some (JList ms))"
proof (cases memory)
  case (JDict items)
  show ?thesis
  proof (cases "map_of items ''messages''")
    case None
    with JDict show ?thesis by (simp add: well_formed_memory_def)
  next
    case (Some v)
    with JDict show ?thesis by (cases v) (simp_all add: well_formed_memory_def)
  qed
qed (simp_all add: well_formed_memory_def)

lemma well_formed_memoryE:
  assumes "well_formed_memory memory"
  obtains items ms where "memory = JDict items" and "map_of items ''messages'' = Some (JList ms)"
  using assms unfolding well_formed_memory_iff by blast

lemma append_to_memory_ill_formed:
  assumes "\<not> well_formed_memory memory"
  shows "\<exists>err. append_to_memory memory e = Inl err"
proof (cases memory)
  case (JDict items)
  show ?thesis
  proof (cases "map_of items ''messages''")
    case None
    with JDict show ?thesis by (simp add: append_to_memory_def getitem_def)
  next
    case (Some v)
    with JDict assms have "\<And>ms. v \<noteq> JList ms"
      by (auto simp: well_formed_memory_iff)
    with JDict Some show ?thesis
      by (cases v) (auto simp: append_to_memory_def getitem_def as_list_def)
  qed
qed (simp_all add: append_to_memory_def getitem_def)

lemma on_message_ill_formed:
  assumes a: "effective_user_id update \<in> set ALLOWED_USERS"
    and f: "files w (memory_file (effective_user_id update)) = Some (JsonText memory)"
    and m: "\<not> well_formed_memory memory"
  shows "isl (fst (on_message ALLOWED_USERS update w))"
proof -
  let ?w1 = "emit (Log DEBUG (''Received message from user ID: '' @ str (effective_user_id update))) w"
  have "files ?w1 (memory_file (effective_user_id update)) = Some (JsonText memory)"
    using f by simp
  note l = load_chat_memory_present [OF this, of "username_or_id update"]
  from append_to_memory_ill_formed [OF m]
  obtain e where "append_to_memory memory (entry ''user'' (message_text update)) = Inl e"
    by blast
  from on_message_append_error [OF a l this] show ?thesis by simp
qed

text \<open>
  Claim C8. For a permitted sender, \<open>on_message\<close> returns normally exactly when the
  user's file is absent or holds a dict with a list under \<^verbatim>\<open>"messages"\<close> (it raises on
  an unparsable file and on any other JSON value). The replies it sends are exactly one
  reply, the text of the message itself, when it returns normally, and none when it
  raises. For a user with no file yet the handler returns normally, sends the text back,
  and the user's file then holds the record whose messages are exactly the user's entry
  followed by the bot's entry, both with the text of the message; at user 42 and the
  text hello that is the record of the end-to-end scenario. For a user whose file holds
  such a dict the handler returns normally, sends the text back, and the file then holds
  the same dict with the user's entry and then the bot's entry appended to its messages
  (each append keeping the last 20).
\<close>

theorem on_message_echo:
  "effective_user_id update \<in> set ALLOWED_USERS \<Longrightarrow>
     (fst (on_message ALLOWED_USERS update w) = Inr ())
       = (case files w (memory_file (effective_user_id update)) of
            None \<Rightarrow> True
          | Some Garbage \<Rightarrow> False
          | Some (JsonText memory) \<Rightarrow> well_formed_memory memory)
   \<and> replies (trace (snd (on_message ALLOWED_USERS update w)))
       = replies (trace w)
           @ (if isl (fst (on_message ALLOWED_USERS update w)) then [] else [message_text update])
   \<and> (files w (memory_file (effective_user_id update)) = None \<longrightarrow>
        fst (on_message ALLOWED_USERS update w) = Inr ()
        \<and> replies (trace (snd (on_message ALLOWED_USERS update w)))
            = replies (trace w) @ [message_text update]
        \<and> files (snd (on_message ALLOWED_USERS update w)) (memory_file (effective_user_id update))
            = Some (JsonText (JDict [(''username'', JStr (username_or_id update)),
                (''messages'', JList [JDict [(''from'', JStr ''user''), (''text'', JStr (message_text update))],
                                      JDict [(''from'', JStr ''bot''), (''text'', JStr (message_text update))]])])))
   \<and> (files w (memory_file (effective_user_id update)) = Some (JsonText (JDict items))
        \<and> map_of items ''messages'' = Some (JList ms) \<longrightarrow>
        fst (on_message ALLOWED_USERS update w) = Inr ()
        \<and> replies (trace (snd (on_message ALLOWED_USERS update w)))
            = replies (trace w) @ [message_text update]
        \<and> files (snd (on_message ALLOWED_USERS update w)) (memory_file (effective_user_id update))
            = Some (JsonText (JDict (AList.update ''messages''
                (JList (update_message_history
                   (update_message_history ms
                      (JDict [(''from'', JStr ''user''), (''text'', JStr (message_text update))]))
                   (JDict [(''from'', JStr ''bot''), (''text'', JStr (message_text update))])))
                items))))"
proof (intro conjI impI)
  assume a: "effective_user_id update \<in> set ALLOWED_USERS"
  show "(fst (on_message ALLOWED_USERS update w) = Inr ())
       = (case files w (memory_file (effective_user_id update)) of
            None \<Rightarrow> True
          | Some Garbage \<Rightarrow> False
          | Some (JsonText memory) \<Rightarrow> well_formed_memory memory)"
  proof (cases w "effective_user_id update" rule: load_chat_memory_cases)
    case (present memory)
    show ?thesis
    proof (cases "well_formed_memory memory")
      case True
      then obtain items ms where "memory = JDict items"
        and "map_of items ''messages'' = Some (JList ms)"
        by (rule well_formed_memoryE)
      with present True show ?thesis
        using on_message_present [OF a, of w items ms] by simp
    next
      case False
      with present on_message_ill_formed [OF a present False] show ?thesis by auto
    qed
  next
    case garbage
    then show ?thesis by (simp add: on_message_garbage [OF a garbage])
  next
    case absent
    then show ?thesis by (simp add: on_message_absent [OF a absent])
  qed
  show "replies (trace (snd (on_message ALLOWED_USERS update w)))
       = replies (trace w)
           @ (if isl (fst (on_message ALLOWED_USERS update w)) then [] else [message_text update])"
    by (rule on_message_replies [OF a])
  {
    assume n: "files w (memory_file (effective_user_id update)) = None"
    show "fst (on_message ALLOWED_USERS update w) = Inr ()"
      by (simp add: on_message_absent [OF a n])
    show "replies (trace (snd (on_message ALLOWED_USERS update w)))
            = replies (trace w) @ [message_text update]"
      by (simp add: on_message_absent [OF a n])
    show "files (snd (on_message ALLOWED_USERS update w)) (memory_file (effective_user_id update))
            = Some (JsonText (JDict [(''username'', JStr (username_or_id update)),
                (''messages'', JList [JDict [(''from'', JStr ''user''), (''text'', JStr (message_text update))],
                                      JDict [(''from'', JStr ''bot''), (''text'', JStr (message_text update))]])]))"
      by (simp add: on_message_absent [OF a n] entry_def)
  }
  {
    assume "files w (memory_file (effective_user_id update)) = Some (JsonText (JDict items))
        \<and> map_of items ''messages'' = Some (JList ms)"
    then have f: "files w (memory_file (effective_user_id update)) = Some (JsonText (JDict items))"
      and m: "map_of items ''messages'' = Some (JList ms)"
      by simp_all
    show "fst (on_message ALLOWED_USERS update w) = Inr ()"
      by (simp add: on_message_present [OF a f m])
    show "replies (trace (snd (on_message ALLOWED_USERS update w)))
            = replies (trace w) @ [message_text update]"
      by (simp add: on_message_present [OF a f m])
    show "files (snd (on_message ALLOWED_USERS update w)) (memory_file (effective_user_id update))
            = Some (JsonText (JDict (AList.update ''messages''
                (JList (update_message_history
                   (update_message_history ms
                      (JDict [(''from'', JStr ''user''), (''text'', JStr (message_text update))]))
                   (JDict [(''from'', JStr ''bot''), (''text'', JStr (message_text update))])))
                items)))"
      by (simp add: on_message_present [OF a f m] entry_def)
  }
qed

theorem on_message_echo_witness:
  "42 \<in> set [42::int]
   \<and> files empty_world ''data/42.json'' = None
   \<and> fst (on_message [42] hello_from_42 empty_world) = Inr ()
   \<and> replies (trace (snd (on_message [42] hello_from_42 empty_world))) = [''hello'']
   \<and> files (snd (on_message [42] hello_from_42 empty_world)) ''data/42.json''
       = Some (JsonText (JDict [(''username'', JStr ''alice''),
           (''messages'', JList [JDict [(''from'', JStr ''user''), (''text'', JStr ''hello'')],
                                 JDict [(''from'', JStr ''bot''), (''text'', JStr ''hello'')]])]))
   \<and> files alice_world ''data/42.json'' = Some (JsonText alice_memory)
   \<and> fst (on_message [42] hello_from_42 alice_world) = Inr ()
   \<and> replies (trace (snd (on_message [42] hello_from_42 alice_world))) = [''hello'']
   \<and> files (snd (on_message [42] hello_from_42 alice_world)) ''data/42.json''
       = Some (JsonText (JDict [(''username'', JStr ''alice''),
           (''messages'', JList [JDict [(''from'', JStr ''user''), (''text'', JStr ''hello'')],
                                 JDict [(''from'', JStr ''bot''), (''text'', JStr ''hello'')]])]))"
  using on_message_echo [of hello_from_42 "[42]" empty_world
          "[(''username'', JStr ''alice''), (''messages'', JList [])]" "[]"]
        on_message_echo [of hello_from_42 "[42]" alice_world
          "[(''username'', JStr ''alice''), (''messages'', JList [])]" "[]"]
  by (simp add: hello_from_42_def empty_world_def alice_world_def alice_memory_def
        memory_file_42 username_or_id_def update_message_history_def)

section \<open>Other users' files\<close>

lemma memory_file_7: "memory_file 7 = ''data/7.json''"
  by code_simp

lemma files_load_other:
  "f \<noteq> memory_file user_id \<Longrightarrow> files (snd (load_chat_memory user_id hint w)) f = files w f"
  by (cases w user_id rule: load_chat_memory_cases)
     (simp_all add: load_chat_memory_present load_chat_memory_garbage load_chat_memory_absent)

lemma files_save_other:
  "f \<noteq> memory_file user_id \<Longrightarrow> files (save_chat_memory user_id memory w) f = files w f"
  by (simp add: save_chat_memory_def)

lemma files_clear_data_other:
  "f \<noteq> memory_file (effective_user_id update) \<Longrightarrow>
     files (snd (clear_data ALLOWED_USERS update w)) f = files w f"
  by (simp add: clear_data_def Let_def)

lemma files_on_message_other:
  assumes f: "f \<noteq> memory_file (effective_user_id update)"
  shows "files (snd (on_message ALLOWED_USERS update w)) f = files w f"
proof (cases "effective_user_id update \<in> set ALLOWED_USERS")
  case False
  then show ?thesis by (simp add: on_message_def)
next
  case a: True
  let ?w1 = "emit (Log DEBUG (''Received message from user ID: '' @ str (effective_user_id update))) w"
  let ?l = "load_chat_memory (effective_user_id update) (username_or_id update) ?w1"
  have f2: "files (snd ?l) f = files w f"
    using f by (simp add: files_load_other)
  show ?thesis
  proof (cases "fst ?l")
    case (Inl e)
    then have "?l = (Inl e, snd ?l)" by (metis prod.collapse)
    from on_message_load_error [OF a this] f2 show ?thesis by simp
  next
    case (Inr memory)
    then have l: "?l = (Inr memory, snd ?l)" by (metis prod.collapse)
    show ?thesis
    proof (cases "append_to_memory memory (entry ''user'' (message_text update))")
      case (Inl e)
      from on_message_append_error [OF a l this] f2 show ?thesis by simp
    next
      case first: (Inr memory1)
      from append_to_memory_again [OF this]
      obtain memory2 where "append_to_memory memory1 (entry ''bot'' (message_text update)) = Inr memory2"
        by blast
      from on_message_success [OF a l first this] f2 f show ?thesis
        by (simp add: files_save_other)
    qed
  qed
qed

text \<open>
  Claim C10. Each store operation carried out for one user (\<open>load_chat_memory\<close>,
  \<open>save_chat_memory\<close>, the deletion in \<open>clear_data\<close>, and \<open>on_message\<close> as a whole)
  leaves the file of every other user as it was: it touches only the file named after
  its own user id, and distinct ids have distinct file names.
\<close>

theorem store_frame:
  "other \<noteq> effective_user_id update \<Longrightarrow>
     files (snd (load_chat_memory (effective_user_id update) hint w)) (memory_file other)
       = files w (memory_file other)
   \<and> files (save_chat_memory (effective_user_id update) memory w) (memory_file other)
       = files w (memory_file other)
   \<and> files (snd (clear_data ALLOWED_USERS update w)) (memory_file other)
       = files w (memory_file other)
   \<and> files (snd (on_message ALLOWED_USERS update w)) (memory_file other)
       = files w (memory_file other)"
proof -
  assume "other \<noteq> effective_user_id update"
  then have "memory_file other \<noteq> memory_file (effective_user_id update)"
    using memory_file_inject by blast
  then show ?thesis
    by (simp add: files_load_other files_save_other files_clear_data_other files_on_message_other)
qed

theorem store_frame_witness:
  "(7::int) \<noteq> 42
   \<and> files (snd (load_chat_memory 42 ''bob'' garbage_world)) ''data/7.json'' = None
   \<and> files (save_chat_memory 42 JNull (snd (on_message [7, 42] (hello_from_42\<lparr>effective_user_id := 7\<rparr>) alice_world)))
         ''data/7.json''
       = files (snd (on_message [7, 42] (hello_from_42\<lparr>effective_user_id := 7\<rparr>) alice_world))
         ''data/7.json''
   \<and> files (snd (clear_data [7, 42] hello_from_42
          (snd (on_message [7, 42] (hello_from_42\<lparr>effective_user_id := 7\<rparr>) alice_world))))
         ''data/7.json''
       = files (snd (on_message [7, 42] (hello_from_42\<lparr>effective_user_id := 7\<rparr>) alice_world))
         ''data/7.json''
   \<and> files (snd (on_message [7, 42] hello_from_42 garbage_world)) ''data/7.json'' = None"
  using store_frame [of 7 hello_from_42 "''bob''" garbage_world JNull "[7, 42]"]
        store_frame [of 7 hello_from_42 "''bob''"
          "snd (on_message [7, 42] (hello_from_42\<lparr>effective_user_id := 7\<rparr>) alice_world)" JNull "[7, 42]"]
  by (simp add: hello_from_42_def garbage_world_def memory_file_7)

section \<open>The order of reply and save\<close>

text \<open>
  Claim C2 says that the reply is sent only after the user's entry has been saved, the
  handler saving twice. It fails: for user 42, whose file holds a record with no
  messages, the run of \<open>on_message\<close> on the text hello reads the file, sends the
  reply and only then writes the file, once. No write holding the user's entry comes
  before the reply, neither for this user nor for a user without a file (whose only
  earlier write is the empty record made by \<open>load_chat_memory\<close>).
\<close>

theorem user_entry_not_saved_before_reply:
  "trace (snd (on_message [42] hello_from_42 alice_world))
     = [Log DEBUG ''Received message from user ID: 42'',
        MkDir ''data'',
        OpenRead ''data/42.json'',
        ReplyText ''hello'',
        Write ''data/42.json''
          (JDict [(''username'', JStr ''alice''),
                  (''messages'', JList [entry ''user'' ''hello'', entry ''bot'' ''hello''])])]
   \<and> \<not> saved_before_reply ''data/42.json'' (entry ''user'' ''hello'')
         (trace (snd (on_message [42] hello_from_42 alice_world)))
   \<and> \<not> saved_before_reply ''data/42.json'' (entry ''user'' ''hello'')
         (trace (snd (on_message [42] hello_from_42 empty_world)))"
  by code_simp

text \<open>
  Claim C2, amended. For a permitted sender whose file holds a dict with a list under
  \<^verbatim>\<open>"messages"\<close>, the handler returns normally and its effects are, in this order:
  the debug log, the directory, the read of the file, the reply, and one write of the
  record to which the user's entry and then the bot's entry have been appended. For a
  permitted sender with no file the same holds, with the write of the fresh empty record
  by \<open>load_chat_memory\<close> between the read and the reply. In both cases the only save
  of the user's entry follows the reply.
\<close>

theorem on_message_saves_after_reply:
  "effective_user_id update \<in> set ALLOWED_USERS \<Longrightarrow>
     (files w (memory_file (effective_user_id update)) = Some (JsonText (JDict items))
        \<and> map_of items ''messages'' = Some (JList ms) \<longrightarrow>
      fst (on_message ALLOWED_USERS update w) = Inr ()
      \<and> trace (snd (on_message ALLOWED_USERS update w))
          = trace w @
            [Log DEBUG (''Received message from user ID: '' @ str (effective_user_id update)),
             MkDir ''data'',
             OpenRead (memory_file (effective_user_id update)),
             ReplyText (message_text update),
             Write (memory_file (effective_user_id update))
               (JDict (AList.update ''messages''
                 (JList (update_message_history
                    (update_message_history ms (entry ''user'' (message_text update)))
                    (entry ''bot'' (message_text update)))) items))])
   \<and> (files w (memory_file (effective_user_id update)) = None \<longrightarrow>
      fst (on_message ALLOWED_USERS update w) = Inr ()
      \<and> trace (snd (on_message ALLOWED_USERS update w))
          = trace w @
            [Log DEBUG (''Received message from user ID: '' @ str (effective_user_id update)),
             MkDir ''data'',
             OpenRead (memory_file (effective_user_id update)),
             Write (memory_file (effective_user_id update))
               (JDict [(''username'', JStr (username_or_id update)), (''messages'', JList [])]),
             ReplyText (message_text update),
             Write (memory_file (effective_user_id update))
               (JDict [(''username'', JStr (username_or_id update)),
                 (''messages'', JList [entry ''user'' (message_text update),
                                       entry ''bot'' (message_text update)])])])"
proof (intro conjI impI)
  assume a: "effective_user_id update \<in> set ALLOWED_USERS"
  {
    assume "files w (memory_file (effective_user_id update)) = Some (JsonText (JDict items))
        \<and> map_of items ''messages'' = Some (JList ms)"
    then have f: "files w (memory_file (effective_user_id update)) = Some (JsonText (JDict items))"
      and m: "map_of items ''messages'' = Some (JList ms)"
      by simp_all
    show "fst (on_message ALLOWED_USERS update w) = Inr ()"
      by (simp add: on_message_present [OF a f m])
    show "trace (snd (on_message ALLOWED_USERS update w))
          = trace w @
            [Log DEBUG (''Received message from user ID: '' @ str (effective_user_id update)),
             MkDir ''data'',
             OpenRead (memory_file (effective_user_id update)),
             ReplyText (message_text update),
             Write (memory_file (effective_user_id update))
               (JDict (AList.update ''messages''
                 (JList (update_message_history
                    (update_message_history ms (entry ''user'' (message_text update)))
                    (entry ''bot'' (message_text update)))) items))]"
      by (simp add: on_message_present [OF a f m])
  }
  {
    assume n: "files w (memory_file (effective_user_id update)) = None"
    show "fst (on_message ALLOWED_USERS update w) = Inr ()"
      by (simp add: on_message_absent [OF a n])
    show "trace (snd (on_message ALLOWED_USERS update w))
          = trace w @
            [Log DEBUG (''Received message from user ID: '' @ str (effective_user_id update)),
             MkDir ''data'',
             OpenRead (memory_file (effective_user_id update)),
             Write (memory_file (effective_user_id update))
               (JDict [(''username'', JStr (username_or_id update)), (''messages'', JList [])]),
             ReplyText (message_text update),
             Write (memory_file (effective_user_id update))
               (JDict [(''username'', JStr (username_or_id update)),
                 (''messages'', JList [entry ''user'' (message_text update),
                                       entry ''bot'' (message_text update)])])]"
      by (simp add: on_message_absent [OF a n])
  }
qed

theorem on_message_saves_after_reply_witness:
  "42 \<in> set [42::int]
   \<and> files alice_world ''data/42.json'' = Some (JsonText alice_memory)
   \<and> fst (on_message [42] hello_from_42 alice_world) = Inr ()
   \<and> writes (trace (snd (on_message [42] hello_from_42 alice_world)))
       = [(''data/42.json'',
           JDict [(''username'', JStr ''alice''),
                  (''messages'', JList [entry ''user'' ''hello'', entry ''bot'' ''hello''])])]
   \<and> files empty_world ''data/42.json'' = None
   \<and> trace (snd (on_message [42] hello_from_42 empty_world))
       = [Log DEBUG ''Received message from user ID: 42'',
          MkDir ''data'',
          OpenRead ''data/42.json'',
          Write ''data/42.json'' (JDict [(''username'', JStr ''alice''), (''messages'', JList [])]),
          ReplyText ''hello'',
          Write ''data/42.json''
            (JDict [(''username'', JStr ''alice''),
                    (''messages'', JList [entry ''user'' ''hello'', entry ''bot'' ''hello''])])]"
  using on_message_saves_after_reply [of hello_from_42 "[42]" alice_world
          "[(''username'', JStr ''alice''), (''messages'', JList [])]" "[]"]
        on_message_saves_after_reply [of hello_from_42 "[42]" empty_world
          "[(''username'', JStr ''alice''), (''messages'', JList [])]" "[]"]
  by (simp add: hello_from_42_def alice_world_def empty_world_def alice_memory_def
        memory_file_42 str_42 username_or_id_def update_message_history_def)

section \<open>An unparsable record\<close>

text \<open>
  Claim C3 says that an unreadable or corrupt record is treated as not found and
  recreated, and that the handler never fails on it. It fails: with an unparsable file
  for user 42, \<open>load_chat_memory\<close> raises \<^verbatim>\<open>JSONDecodeError\<close> (only
  \<^verbatim>\<open>FileNotFoundError\<close> is caught) and leaves the file as it is, and \<open>on_message\<close>
  ends with that exception, sending no reply.
\<close>

theorem corrupt_record_raises:
  "fst (load_chat_memory 42 ''alice'' garbage_world) = Inl JSONDecodeError
   \<and> files (snd (load_chat_memory 42 ''alice'' garbage_world)) ''data/42.json'' = Some Garbage
   \<and> fst (on_message [42] hello_from_42 garbage_world) = Inl JSONDecodeError
   \<and> replies (trace (snd (on_message [42] hello_from_42 garbage_world))) = []
   \<and> files (snd (on_message [42] hello_from_42 garbage_world)) ''data/42.json'' = Some Garbage"
  by code_simp

text \<open>
  Claim C3, amended. A record that is absent is recreated: \<open>load_chat_memory\<close> returns
  a fresh record with no messages and stores it. A record that is present but
  unparsable is not: \<open>load_chat_memory\<close> raises \<^verbatim>\<open>JSONDecodeError\<close>, having changed
  no file, and \<open>on_message\<close> for a permitted sender with such a file ends with that
  exception after the read, with no reply and no write.
\<close>

theorem load_chat_memory_corrupt:
  "(files w (memory_file user_id) = None \<longrightarrow>
      fst (load_chat_memory user_id hint w)
        = Inr (JDict [(''username'', JStr hint), (''messages'', JList [])])
      \<and> files (snd (load_chat_memory user_id hint w)) (memory_file user_id)
        = Some (JsonText (JDict [(''username'', JStr hint), (''messages'', JList [])])))
   \<and> (files w (memory_file user_id) = Some Garbage \<longrightarrow>
      load_chat_memory user_id hint w
        = (Inl JSONDecodeError,
           w\<lparr>trace := trace w @ [MkDir ''data'', OpenRead (memory_file user_id)]\<rparr>))
   \<and> (files w (memory_file (effective_user_id update)) = Some Garbage
        \<and> effective_user_id update \<in> set ALLOWED_USERS \<longrightarrow>
      on_message ALLOWED_USERS update w
        = (Inl JSONDecodeError,
           w\<lparr>trace := trace w @
             [Log DEBUG (''Received message from user ID: '' @ str (effective_user_id update)),
              MkDir ''data'',
              OpenRead (memory_file (effective_user_id update))]\<rparr>))"
  by (simp add: load_chat_memory_absent load_chat_memory_garbage on_message_garbage)

theorem load_chat_memory_corrupt_witness:
  "files empty_world ''data/42.json'' = None
   \<and> fst (load_chat_memory 42 ''alice'' empty_world) = Inr alice_memory
   \<and> files garbage_world ''data/42.json'' = Some Garbage
   \<and> fst (load_chat_memory 42 ''alice'' garbage_world) = Inl JSONDecodeError
   \<and> files (snd (load_chat_memory 42 ''alice'' garbage_world)) = files garbage_world
   \<and> 42 \<in> set [42::int]
   \<and> fst (on_message [42] hello_from_42 garbage_world) = Inl JSONDecodeError
   \<and> files (snd (on_message [42] hello_from_42 garbage_world)) = files garbage_world
   \<and> trace (snd (on_message [42] hello_from_42 garbage_world))
       = [Log DEBUG ''Received message from user ID: 42'', MkDir ''data'', OpenRead ''data/42.json'']"
  using load_chat_memory_corrupt [of empty_world 42 "''alice''" hello_from_42 "[42]"]
        load_chat_memory_corrupt [of garbage_world 42 "''alice''" hello_from_42 "[42]"]
  by (simp add: hello_from_42_def empty_world_def garbage_world_def alice_memory_def
        memory_file_42 str_42)

end
